theory Spec2Isabelle
  imports Main
begin

section \<open>Python strings\<close>

text \<open>
  A Python \<open>str\<close> is a sequence of Unicode code points, so it is modelled as a list of
  natural numbers (one per code point) rather than as a list of bytes.  String literals
  of the source are all ASCII and are written \<open>ascii ''...''\<close>.
\<close>

type_synonym str = "nat list"

definition ascii :: "string \<Rightarrow> str" where
  "ascii s = map of_char s"

text \<open>
  The code points that \<open>str.strip()\<close> removes (CPython's \<open>Py_UNICODE_ISSPACE\<close>):
  U+0009..U+000D, U+001C..U+0020, U+0085, U+00A0, U+1680, U+2000..U+200A, U+2028, U+2029,
  U+202F, U+205F and U+3000.
\<close>

definition isspace :: "nat \<Rightarrow> bool" where
  "isspace c \<longleftrightarrow>
     (9 \<le> c \<and> c \<le> 13) \<or> (28 \<le> c \<and> c \<le> 32) \<or> c = 133 \<or> c = 160 \<or> c = 5760 \<or>
     (8192 \<le> c \<and> c \<le> 8202) \<or> c = 8232 \<or> c = 8233 \<or> c = 8239 \<or> c = 8287 \<or> c = 12288"

definition lstrip :: "str \<Rightarrow> str" where
  "lstrip s = dropWhile isspace s"

definition rstrip :: "str \<Rightarrow> str" where
  "rstrip s = rev (dropWhile isspace (rev s))"

definition strip :: "str \<Rightarrow> str" where
  "strip s = rstrip (lstrip s)"

text \<open>\<open>d.get(key, default)\<close> on a dictionary.\<close>

definition dict_get :: "('k \<rightharpoonup> 'v) \<Rightarrow> 'k \<Rightarrow> 'v \<Rightarrow> 'v" where
  "dict_get d k dflt = (case d k of None \<Rightarrow> dflt | Some v \<Rightarrow> v)"

section \<open>Exceptions\<close>

text \<open>
  An instance of \<open>Exception\<close> (the class the handlers catch, and the one the client
  library's errors derive from) is represented by the text that \<open>str(e)\<close>, and so the
  f-string \<open>f'{e}'\<close>, gives for it.  A call that can raise returns \<open>Inl e\<close> then.
\<close>

datatype exception = Exception str

fun str_of :: "exception \<Rightarrow> str" where
  "str_of (Exception s) = s"

text \<open>
  The exceptions Python itself raises in the handler: indexing an empty list, and reading
  an attribute of \<open>None\<close>.  Code point 39 is the apostrophe.
\<close>

definition IndexError :: exception where
  "IndexError = Exception (ascii ''list index out of range'')"

definition AttributeError :: "string \<Rightarrow> exception" where
  "AttributeError attr =
     Exception ([39] @ ascii ''NoneType'' @ [39] @ ascii '' object has no attribute '' @
                [39] @ ascii attr @ [39])"

section \<open>The host's and the client library's types\<close>

text \<open>
  \<open>CopyToClipboardAction\<close>, \<open>ExtensionResultItem\<close> and \<open>RenderResultListAction\<close> belong to
  the launcher.  An item that is built without \<open>highlightable\<close> gets the launcher's default
  \<open>True\<close>, and one built without \<open>on_enter\<close> has no action.
\<close>

datatype action = CopyToClipboardAction str

record ExtensionResultItem =
  icon :: str
  name :: str
  description :: str
  highlightable :: bool
  on_enter :: "action option"

datatype result = RenderResultListAction "ExtensionResultItem list"

text \<open>One chat message, the dictionary \<open>{"role": ..., "content": ...}\<close>.\<close>

record message =
  role :: str
  content :: str

text \<open>
  The reply of the chat-completion endpoint, as far as the handler reads it: entry \<open>i\<close> of
  \<open>choices\<close> is \<open>choices[i].message.content\<close>, which is \<open>None\<close> or a string.
\<close>

record chat_completion =
  choices :: "str option list"

text \<open>
  The client library, a parameter of the model: \<open>OpenAI\<close> is the constructor called with
  keyword arguments (an insertion-ordered dictionary, so an association list), \<open>create\<close>
  is \<open>client.chat.completions.create(messages=..., model=...)\<close>.  Either returns or raises.
\<close>

record 'c openai =
  OpenAI :: "(str \<times> str) list \<Rightarrow> exception + 'c"
  create :: "'c \<Rightarrow> message list \<Rightarrow> str \<Rightarrow> exception + chat_completion"

text \<open>What a handler does to the outside world, in order.\<close>

datatype 'c call =
    Construct "(str \<times> str) list"
  | Create 'c "message list" str
  | Log_error str
  | Log_info "str \<rightharpoonup> str"

section \<open>The extension\<close>

text \<open>
  The extension object: the preferences dictionary the launcher fills in (its values are
  strings), the cached client, and the attribute \<open>_current_base_url\<close>, which does not
  exist until a handler sets it (\<open>getattr(extension, '_current_base_url', None)\<close> reads
  \<open>None\<close> then).
\<close>

record 'c extension =
  preferences :: "str \<rightharpoonup> str"
  openai_client :: "'c option"
  current_base_url :: "str option"

definition need_client_update :: "'c extension \<Rightarrow> str \<Rightarrow> bool" where
  "need_client_update extension new_base_url \<longleftrightarrow>
     current_base_url extension \<noteq> Some new_base_url"

text \<open>Lines 47 to 49 (and 127 to 129): the keyword arguments of the constructor.\<close>

definition client_kwargs :: "str \<Rightarrow> str \<Rightarrow> (str \<times> str) list" where
  "client_kwargs openai_api_key base_url =
     (ascii ''api_key'', openai_api_key) #
     (if base_url \<noteq> [] then [(ascii ''base_url'', base_url)] else [])"

subsection \<open>The result items\<close>

definition key_missing_item :: ExtensionResultItem where
  "key_missing_item =
     \<lparr>icon = ascii ''images/icon.png'',
      name = ascii ''OpenAI API Key Missing'',
      description = ascii ''Please set your OpenAI API Key in Ulauncher preferences.'',
      highlightable = False, on_enter = None\<rparr>"

definition init_error_item :: "exception \<Rightarrow> ExtensionResultItem" where
  "init_error_item e =
     \<lparr>icon = ascii ''images/icon.png'',
      name = ascii ''Error initializing OpenAI client'',
      description = str_of e,
      highlightable = False, on_enter = None\<rparr>"

definition type_something_item :: ExtensionResultItem where
  "type_something_item =
     \<lparr>icon = ascii ''images/icon.png'',
      name = ascii ''Type something to translate'',
      description = ascii ''Enter text to translate using OpenAI'',
      highlightable = False, on_enter = None\<rparr>"

definition translated_item :: "str \<Rightarrow> ExtensionResultItem" where
  "translated_item translated_text =
     \<lparr>icon = ascii ''images/icon.png'',
      name = translated_text,
      description = ascii ''Press Enter to copy to clipboard'',
      highlightable = True, on_enter = Some (CopyToClipboardAction translated_text)\<rparr>"

definition translation_error_item :: "exception \<Rightarrow> ExtensionResultItem" where
  "translation_error_item e =
     \<lparr>icon = ascii ''images/icon.png'',
      name = ascii ''Error during translation'',
      description = str_of e @ [10] @ ascii ''Check logs for details'',
      highlightable = False, on_enter = None\<rparr>"

subsection \<open>\<open>KeywordQueryEventListener.on_event\<close>\<close>

text \<open>Python's truth value of \<open>None\<close> or a string: only a non-empty string is true.\<close>

definition truthy :: "str option \<Rightarrow> bool" where
  "truthy v = (case v of None \<Rightarrow> False | Some s \<Rightarrow> s \<noteq> [])"

definition default_system_prompt :: str where
  "default_system_prompt = ascii (''You are a useful translation assistant. Please translate my Chinese into English and translate all non-Chinese into Chinese. '' @ ''Everything I send you is content that needs translation; you only need to provide the translation results. '' @ ''The translation results should conform to Chinese language habits.'')"

text \<open>Lines 79 to 90: the system message, then the user's text.\<close>

definition build_messages :: "str \<Rightarrow> str \<Rightarrow> message list" where
  "build_messages custom_prompt text_to_translate =
     (if custom_prompt \<noteq> []
      then [\<lparr>role = ascii ''system'', content = custom_prompt\<rparr>]
      else [\<lparr>role = ascii ''system'', content = default_system_prompt\<rparr>]) @
     [\<lparr>role = ascii ''user'', content = text_to_translate\<rparr>]"

text \<open>
  Lines 45 to 58: the client is built when there is none or when \<open>_need_client_update\<close>
  says so.  When the constructor raises, neither attribute of the extension is assigned;
  the exception is returned with the calls made so far.
\<close>

definition init_client ::
  "'c openai \<Rightarrow> str \<Rightarrow> str \<Rightarrow> 'c extension \<Rightarrow> (exception + 'c extension) \<times> 'c call list" where
  "init_client api openai_api_key base_url extension =
     (if openai_client extension = None \<or> need_client_update extension base_url
      then (case OpenAI api (client_kwargs openai_api_key base_url) of
              Inr c \<Rightarrow>
                (Inr (extension\<lparr>openai_client := Some c, current_base_url := Some base_url\<rparr>),
                 [Construct (client_kwargs openai_api_key base_url)])
            | Inl e \<Rightarrow>
                (Inl e,
                 [Construct (client_kwargs openai_api_key base_url),
                  Log_error (ascii ''Error initializing OpenAI client: '' @ str_of e)]))
      else (Inr extension, []))"

text \<open>
  Lines 69 to 102, the body of the \<open>try\<close>, for a query that is a non-empty string: the
  item it puts in the list, or the exception it raises, and the calls it makes.  Reading
  \<open>.chat\<close> of a client that is \<open>None\<close>, \<open>choices[0]\<close> of an empty list and \<open>.strip()\<close> of a
  content that is \<open>None\<close> raise.
\<close>

definition translate ::
  "'c openai \<Rightarrow> 'c option \<Rightarrow> str \<Rightarrow> str \<Rightarrow> str \<Rightarrow> (exception + ExtensionResultItem) \<times> 'c call list" where
  "translate api client custom_prompt model_name query =
     (let text_to_translate = strip query in
      if text_to_translate = [] then (Inr type_something_item, [])
      else
        let messages = build_messages custom_prompt text_to_translate in
        case client of
          None \<Rightarrow> (Inl (AttributeError ''chat''), [])
        | Some c \<Rightarrow>
            (case create api c messages model_name of
               Inl e \<Rightarrow> Inl e
             | Inr chat_completion \<Rightarrow>
                 (case choices chat_completion of
                    [] \<Rightarrow> Inl IndexError
                  | None # _ \<Rightarrow> Inl (AttributeError ''strip'')
                  | Some text # _ \<Rightarrow> Inr (translated_item (strip text))),
             [Create c messages model_name]))"

text \<open>
  The handler, given the query \<open>event.get_argument()\<close> (\<open>None\<close> or a string) and the
  extension: the rendered list, the extension afterwards, and the calls made.
\<close>

definition KeywordQueryEventListener_on_event ::
  "'c openai \<Rightarrow> str option \<Rightarrow> 'c extension \<Rightarrow> result \<times> 'c extension \<times> 'c call list" where
  "KeywordQueryEventListener_on_event api query extension =
     (let openai_api_key = preferences extension (ascii ''openai_api_key'');
          base_url = strip (dict_get (preferences extension) (ascii ''base_url'') []);
          custom_prompt = strip (dict_get (preferences extension) (ascii ''custom_prompt'') []);
          model_name =
            strip (dict_get (preferences extension) (ascii ''model_name'') (ascii ''gpt-4o-mini''))
      in
      case openai_api_key of
        None \<Rightarrow> (RenderResultListAction [key_missing_item], extension, [])
      | Some key \<Rightarrow>
          if \<not> truthy (Some key)
          then (RenderResultListAction [key_missing_item], extension, [])
          else
            (case init_client api key base_url extension of
               (Inl e, calls) \<Rightarrow> (RenderResultListAction [init_error_item e], extension, calls)
             | (Inr extension', calls) \<Rightarrow>
                 (case query of
                    None \<Rightarrow> (RenderResultListAction [type_something_item], extension', calls)
                  | Some q \<Rightarrow>
                      if \<not> truthy (Some q)
                      then (RenderResultListAction [type_something_item], extension', calls)
                      else
                        (case translate api (openai_client extension') custom_prompt model_name q of
                           (Inr item, calls') \<Rightarrow>
                             (RenderResultListAction [item], extension', calls @ calls')
                         | (Inl e, calls') \<Rightarrow>
                             (RenderResultListAction [translation_error_item e], extension',
                              calls @ calls' @
                              [Log_error (ascii ''Error during translation: '' @ str_of e)])))))"

subsection \<open>\<open>PreferencesEventListener.on_event\<close>\<close>

definition PreferencesEventListener_on_event ::
  "'c openai \<Rightarrow> 'c extension \<Rightarrow> 'c extension \<times> 'c call list" where
  "PreferencesEventListener_on_event api extension =
     (let openai_api_key = preferences extension (ascii ''openai_api_key'');
          base_url = strip (dict_get (preferences extension) (ascii ''base_url'') [])
      in
      case openai_api_key of
        None \<Rightarrow> (extension\<lparr>openai_client := None\<rparr>, [Log_info (preferences extension)])
      | Some key \<Rightarrow>
          if truthy (Some key)
          then (case OpenAI api (client_kwargs key base_url) of
                  Inr c \<Rightarrow>
                    (extension\<lparr>openai_client := Some c, current_base_url := Some base_url\<rparr>,
                     [Log_info (preferences extension), Construct (client_kwargs key base_url)])
                | Inl e \<Rightarrow>
                    (extension\<lparr>openai_client := None\<rparr>,
                     [Log_info (preferences extension), Construct (client_kwargs key base_url),
                      Log_error (ascii ''Error updating OpenAI client: '' @ str_of e)]))
          else (extension\<lparr>openai_client := None\<rparr>, [Log_info (preferences extension)]))"

section \<open>Vocabulary of the properties\<close>

text \<open>The calls of a trace that go to the chat-completion endpoint.\<close>

fun is_request :: "'c call \<Rightarrow> bool" where
  "is_request (Create c ms m) = True"
| "is_request _ = False"

subsection \<open>Example runs\<close>

text \<open>
  The preferences of the end-to-end example: key \<open>k\<close>, no base URL, no custom prompt, the
  default model.  In the examples a client is the keyword arguments it was built from.
\<close>

definition example_preferences :: "str \<rightharpoonup> str" where
  "example_preferences =
     [ascii ''openai_api_key'' \<mapsto> ascii ''k'', ascii ''base_url'' \<mapsto> [],
      ascii ''custom_prompt'' \<mapsto> [], ascii ''model_name'' \<mapsto> ascii ''gpt-4o-mini'']"

definition example_extension :: "(str \<times> str) list extension" where
  "example_extension =
     \<lparr>preferences = example_preferences, openai_client = None, current_base_url = None\<rparr>"

text \<open>A library whose endpoint answers with the two code points U+4F60 U+597D, padded.\<close>

definition example_api :: "(str \<times> str) list openai" where
  "example_api =
     \<lparr>OpenAI = (\<lambda>kwargs. Inr kwargs),
      create = (\<lambda>client messages model. Inr \<lparr>choices = [Some [32, 20320, 22909, 10]]\<rparr>)\<rparr>"

text \<open>A library whose endpoint times out, and one whose constructor raises.\<close>

definition timeout_api :: "(str \<times> str) list openai" where
  "timeout_api =
     \<lparr>OpenAI = (\<lambda>kwargs. Inr kwargs),
      create = (\<lambda>client messages model. Inl (Exception (ascii ''Request timed out.'')))\<rparr>"

definition failing_api :: "(str \<times> str) list openai" where
  "failing_api =
     \<lparr>OpenAI = (\<lambda>kwargs. Inl (Exception (ascii ''Invalid URL''))),
      create = (\<lambda>client messages model. Inr \<lparr>choices = [Some [32, 20320, 22909, 10]]\<rparr>)\<rparr>"

text \<open>
  An extension that holds a client built for the key \<open>k\<close> and the provider's default URL,
  after the user has set the base URL to \<open>http://x\<close>.
\<close>

definition cached_extension :: "(str \<times> str) list extension" where
  "cached_extension =
     \<lparr>preferences = example_preferences(ascii ''base_url'' \<mapsto> ascii ''http://x''),
      openai_client = Some [(ascii ''api_key'', ascii ''k'')],
      current_base_url = Some []\<rparr>"

text \<open>The example extension with another custom prompt, and one without any preference.\<close>

definition prompt_extension :: "str \<Rightarrow> (str \<times> str) list extension" where
  "prompt_extension p =
     example_extension\<lparr>preferences := example_preferences(ascii ''custom_prompt'' \<mapsto> p)\<rparr>"

definition no_key_extension :: "(str \<times> str) list extension" where
  "no_key_extension = cached_extension\<lparr>preferences := Map.empty\<rparr>"

section \<open>Facts about \<open>strip\<close>\<close>

lemma dropWhile_all_iff: "(\<forall>x\<in>set (dropWhile P xs). P x) \<longleftrightarrow> (\<forall>x\<in>set xs. P x)"
  by (induction xs) auto

lemma strip_eq_Nil_iff: "strip s = [] \<longleftrightarrow> (\<forall>c\<in>set s. isspace c)"
proof -
  have "strip s = [] \<longleftrightarrow> (\<forall>c\<in>set (dropWhile isspace s). isspace c)"
    by (simp add: strip_def rstrip_def lstrip_def dropWhile_eq_Nil_conv)
  then show ?thesis
    by (simp add: dropWhile_all_iff)
qed

lemma strip_Nil: "strip [] = []"
  by (simp add: strip_def lstrip_def rstrip_def)

lemma dropWhile_keep: "xs \<noteq> [] \<Longrightarrow> \<not> P (hd xs) \<Longrightarrow> dropWhile P (xs @ ys) = xs @ ys"
  by (cases xs) auto

lemma strip_surrounded:
  assumes l: "\<forall>c\<in>set l. isspace c" and r: "\<forall>c\<in>set r. isspace c"
    and x: "x \<noteq> []" "\<not> isspace (hd x)" "\<not> isspace (last x)"
  shows "strip (l @ x @ r) = x"
proof -
  have "lstrip (l @ x @ r) = x @ r"
    using l x by (simp add: lstrip_def dropWhile_append2 dropWhile_keep)
  moreover have "dropWhile isspace (rev r @ rev x) = rev x"
  proof -
    have "\<forall>c\<in>set (rev r). isspace c"
      using r by simp
    then have "dropWhile isspace (rev r @ rev x) = dropWhile isspace (rev x)"
      by (simp only: dropWhile_append2)
    also have "\<dots> = rev x"
      using x dropWhile_keep [of "rev x" isspace "[]"] by (simp add: hd_rev)
    finally show ?thesis .
  qed
  ultimately show ?thesis
    by (simp add: strip_def rstrip_def)
qed

lemma strip_unchanged:
  "x \<noteq> [] \<Longrightarrow> \<not> isspace (hd x) \<Longrightarrow> \<not> isspace (last x) \<Longrightarrow> strip x = x"
  using strip_surrounded [of "[]" "[]" x] by simp

lemma strip_model_default: "strip (ascii ''gpt-4o-mini'') = ascii ''gpt-4o-mini''"
  by (simp add: strip_def lstrip_def rstrip_def isspace_def ascii_def)

section \<open>The keyword-query handler\<close>

lemmas handler_defs =
  KeywordQueryEventListener_on_event_def init_client_def translate_def truthy_def
  need_client_update_def Let_def

lemmas eval_defs =
  handler_defs dict_get_def client_kwargs_def build_messages_def
  strip_def lstrip_def rstrip_def isspace_def ascii_def
  key_missing_item_def init_error_item_def type_something_item_def translated_item_def
  translation_error_item_def
  example_preferences_def example_extension_def example_api_def timeout_api_def
  failing_api_def cached_extension_def prompt_extension_def no_key_extension_def

text \<open>
  Every request the handler sends was built from the trimmed query, the trimmed custom
  prompt and the trimmed model name, and went to the client the extension holds afterwards.
\<close>

lemma on_event_request:
  assumes "KeywordQueryEventListener_on_event api query extension = (r, extension', calls)"
    and "Create c ms m \<in> set calls"
  shows "\<exists>q. query = Some q \<and> strip q \<noteq> [] \<and> openai_client extension' = Some c \<and>
      ms = build_messages (strip (dict_get (preferences extension) (ascii ''custom_prompt'') []))
             (strip q) \<and>
      m = strip (dict_get (preferences extension) (ascii ''model_name'') (ascii ''gpt-4o-mini''))"
  using assms
  by (auto simp: handler_defs split: option.splits sum.splits list.splits prod.splits if_splits)

text \<open>The end-to-end example, evaluated.\<close>

lemma example_run:
  "KeywordQueryEventListener_on_event example_api (Some (ascii '' hello '')) example_extension =
     (RenderResultListAction
        [\<lparr>icon = ascii ''images/icon.png'', name = [20320, 22909],
          description = ascii ''Press Enter to copy to clipboard'',
          highlightable = True, on_enter = Some (CopyToClipboardAction [20320, 22909])\<rparr>],
      example_extension\<lparr>openai_client := Some [(ascii ''api_key'', ascii ''k'')],
                         current_base_url := Some []\<rparr>,
      [Construct [(ascii ''api_key'', ascii ''k'')],
       Create [(ascii ''api_key'', ascii ''k'')]
         [\<lparr>role = ascii ''system'', content = default_system_prompt\<rparr>,
          \<lparr>role = ascii ''user'', content = ascii ''hello''\<rparr>] (ascii ''gpt-4o-mini'')])"
  by (simp add: eval_defs)

text \<open>The same run with a custom prompt that is blank, padded, or plain.\<close>

lemma blank_prompt_run:
  "snd (snd (KeywordQueryEventListener_on_event example_api (Some (ascii ''hello''))
       (prompt_extension [32]))) =
     [Construct [(ascii ''api_key'', ascii ''k'')],
      Create [(ascii ''api_key'', ascii ''k'')]
        [\<lparr>role = ascii ''system'', content = default_system_prompt\<rparr>,
         \<lparr>role = ascii ''user'', content = ascii ''hello''\<rparr>] (ascii ''gpt-4o-mini'')]"
  by (simp add: eval_defs)

lemma padded_prompt_run:
  "snd (snd (KeywordQueryEventListener_on_event example_api (Some (ascii ''hello''))
       (prompt_extension [32, 88, 32]))) =
     [Construct [(ascii ''api_key'', ascii ''k'')],
      Create [(ascii ''api_key'', ascii ''k'')]
        [\<lparr>role = ascii ''system'', content = [88]\<rparr>,
         \<lparr>role = ascii ''user'', content = ascii ''hello''\<rparr>] (ascii ''gpt-4o-mini'')]"
  by (simp add: eval_defs)

lemma plain_prompt_run:
  "snd (snd (KeywordQueryEventListener_on_event example_api (Some (ascii ''hello''))
       (prompt_extension [88]))) =
     [Construct [(ascii ''api_key'', ascii ''k'')],
      Create [(ascii ''api_key'', ascii ''k'')]
        [\<lparr>role = ascii ''system'', content = [88]\<rparr>,
         \<lparr>role = ascii ''user'', content = ascii ''hello''\<rparr>] (ascii ''gpt-4o-mini'')]"
  by (simp add: eval_defs)

lemma default_system_prompt_not_blank: "default_system_prompt \<noteq> [32]"
  by (simp add: default_system_prompt_def ascii_def)

section \<open>The properties\<close>

text \<open>
  C1.  With a non-empty API key, no base URL, no custom prompt, the model \<open>gpt-4o-mini\<close>
  and a query that is not blank, and with a client at hand (the cached one, built for the
  default URL, or one the constructor returns), the handler sends exactly one
  chat-completion request: to that client, with the default system message followed by the
  trimmed query as the user message, for the model \<open>gpt-4o-mini\<close>.  When the request
  returns a reply whose first choice has a text, the handler renders one item whose title is
  that text trimmed and whose enter action copies the same trimmed text to the clipboard.
\<close>

theorem C1_translation_request:
  assumes key: "preferences extension (ascii ''openai_api_key'') = Some key" "key \<noteq> []"
    and base: "dict_get (preferences extension) (ascii ''base_url'') [] = []"
    and prompt: "dict_get (preferences extension) (ascii ''custom_prompt'') [] = []"
    and model: "dict_get (preferences extension) (ascii ''model_name'') (ascii ''gpt-4o-mini'') =
                ascii ''gpt-4o-mini''"
    and input: "query = Some q" "strip q \<noteq> []"
    and client: "(openai_client extension \<noteq> None \<and> current_base_url extension = Some []) \<or>
                 (\<exists>c. OpenAI api (client_kwargs key []) = Inr c)"
    and run: "KeywordQueryEventListener_on_event api query extension = (r, extension', calls)"
  shows "\<exists>c. filter is_request calls =
           [Create c [\<lparr>role = ascii ''system'', content = default_system_prompt\<rparr>,
                      \<lparr>role = ascii ''user'', content = strip q\<rparr>] (ascii ''gpt-4o-mini'')] \<and>
         (\<forall>reply text rest.
            create api c [\<lparr>role = ascii ''system'', content = default_system_prompt\<rparr>,
                          \<lparr>role = ascii ''user'', content = strip q\<rparr>] (ascii ''gpt-4o-mini'') = Inr reply \<and>
            choices reply = Some text # rest \<longrightarrow>
            r = RenderResultListAction
                  [\<lparr>icon = ascii ''images/icon.png'', name = strip text,
                    description = ascii ''Press Enter to copy to clipboard'',
                    highlightable = True,
                    on_enter = Some (CopyToClipboardAction (strip text))\<rparr>])"
proof -
  have q: "q \<noteq> []"
    using input by (auto simp: strip_Nil)
  show ?thesis
    using assms q
    by (auto simp: handler_defs strip_Nil strip_model_default build_messages_def
        translated_item_def
        split: option.splits sum.splits list.splits prod.splits if_splits)
qed

theorem C1_translation_request_witness:
  "fst (KeywordQueryEventListener_on_event example_api (Some (ascii '' hello ''))
          example_extension) =
     RenderResultListAction
       [\<lparr>icon = ascii ''images/icon.png'', name = [20320, 22909],
         description = ascii ''Press Enter to copy to clipboard'',
         highlightable = True, on_enter = Some (CopyToClipboardAction [20320, 22909])\<rparr>] \<and>
   filter is_request (snd (snd (KeywordQueryEventListener_on_event example_api
       (Some (ascii '' hello '')) example_extension))) =
     [Create [(ascii ''api_key'', ascii ''k'')]
        [\<lparr>role = ascii ''system'', content = default_system_prompt\<rparr>,
         \<lparr>role = ascii ''user'', content = ascii ''hello''\<rparr>] (ascii ''gpt-4o-mini'')]"
proof -
  let ?q = "ascii '' hello ''"
  obtain r e cs where
    run: "KeywordQueryEventListener_on_event example_api (Some ?q) example_extension = (r, e, cs)"
    by (rule prod_cases3)
  have key: "preferences example_extension (ascii ''openai_api_key'') = Some (ascii ''k'')"
      "ascii ''k'' \<noteq> []"
    by (simp_all add: eval_defs)
  have base: "dict_get (preferences example_extension) (ascii ''base_url'') [] = []"
    by (simp add: eval_defs)
  have prompt: "dict_get (preferences example_extension) (ascii ''custom_prompt'') [] = []"
    by (simp add: eval_defs)
  have model: "dict_get (preferences example_extension) (ascii ''model_name'')
      (ascii ''gpt-4o-mini'') = ascii ''gpt-4o-mini''"
    by (simp add: eval_defs)
  have input: "strip ?q \<noteq> []"
    by (simp add: eval_defs)
  have trimmed: "strip ?q = ascii ''hello''"
    by (simp add: eval_defs)
  have client: "(openai_client example_extension \<noteq> None \<and>
        current_base_url example_extension = Some []) \<or>
      (\<exists>c. OpenAI example_api (client_kwargs (ascii ''k'') []) = Inr c)"
    by (simp add: eval_defs)
  from C1_translation_request [OF key base prompt model refl input client run]
  obtain c where
    req: "filter is_request cs =
           [Create c [\<lparr>role = ascii ''system'', content = default_system_prompt\<rparr>,
                      \<lparr>role = ascii ''user'', content = strip ?q\<rparr>] (ascii ''gpt-4o-mini'')]"
    and ok: "\<And>reply text rest.
            create example_api c [\<lparr>role = ascii ''system'', content = default_system_prompt\<rparr>,
                          \<lparr>role = ascii ''user'', content = strip ?q\<rparr>] (ascii ''gpt-4o-mini'') = Inr reply \<Longrightarrow>
            choices reply = Some text # rest \<Longrightarrow>
            r = RenderResultListAction
                  [\<lparr>icon = ascii ''images/icon.png'', name = strip text,
                    description = ascii ''Press Enter to copy to clipboard'',
                    highlightable = True,
                    on_enter = Some (CopyToClipboardAction (strip text))\<rparr>]"
    by blast
  have "cs = [Construct [(ascii ''api_key'', ascii ''k'')],
       Create [(ascii ''api_key'', ascii ''k'')]
         [\<lparr>role = ascii ''system'', content = default_system_prompt\<rparr>,
          \<lparr>role = ascii ''user'', content = ascii ''hello''\<rparr>] (ascii ''gpt-4o-mini'')]"
    using run by (simp add: example_run)
  then have c: "c = [(ascii ''api_key'', ascii ''k'')]"
    using req by simp
  have "r = RenderResultListAction
                  [\<lparr>icon = ascii ''images/icon.png'', name = strip [32, 20320, 22909, 10],
                    description = ascii ''Press Enter to copy to clipboard'',
                    highlightable = True,
                    on_enter = Some (CopyToClipboardAction (strip [32, 20320, 22909, 10]))\<rparr>]"
    by (rule ok [of "\<lparr>choices = [Some [32, 20320, 22909, 10]]\<rparr>" "[32, 20320, 22909, 10]" "[]"])
      (simp_all add: example_api_def)
  moreover have "strip [32, 20320, 22909, 10] = [20320, 22909]"
    by (simp add: strip_def lstrip_def rstrip_def isspace_def)
  ultimately show ?thesis
    using run req c trimmed by simp
qed

text \<open>
  C1 without a client at hand does not hold: with the same preferences and the query
  \<open>hello\<close>, an extension that has no client yet and a constructor that raises give the
  item \<open>Error initializing OpenAI client\<close>, and no request is sent (lines 52 to 58 return
  before line 93).
\<close>

theorem C1_no_client_counterexample:
  "preferences example_extension (ascii ''openai_api_key'') = Some (ascii ''k'') \<and>
   ascii ''k'' \<noteq> [] \<and>
   dict_get (preferences example_extension) (ascii ''base_url'') [] = [] \<and>
   dict_get (preferences example_extension) (ascii ''custom_prompt'') [] = [] \<and>
   dict_get (preferences example_extension) (ascii ''model_name'') (ascii ''gpt-4o-mini'') =
     ascii ''gpt-4o-mini'' \<and>
   strip (ascii ''hello'') = ascii ''hello'' \<and>
   fst (KeywordQueryEventListener_on_event failing_api (Some (ascii ''hello''))
          example_extension) =
     RenderResultListAction
       [\<lparr>icon = ascii ''images/icon.png'', name = ascii ''Error initializing OpenAI client'',
         description = ascii ''Invalid URL'', highlightable = False, on_enter = None\<rparr>] \<and>
   snd (snd (KeywordQueryEventListener_on_event failing_api (Some (ascii ''hello''))
          example_extension)) =
     [Construct [(ascii ''api_key'', ascii ''k'')],
      Log_error (ascii ''Error initializing OpenAI client: '' @ ascii ''Invalid URL'')] \<and>
   filter is_request (snd (snd (KeywordQueryEventListener_on_event failing_api
       (Some (ascii ''hello'')) example_extension))) = []"
  by (simp add: eval_defs)

text \<open>
  C2.  The handler always renders a list of one item.  When the constructor it called
  raised \<open>e\<close>, the item is the non-actionable \<open>Error initializing OpenAI client\<close> with the
  text of \<open>e\<close> as subtitle; when the chat-completion request it sent raised \<open>e\<close>, the item
  is the non-actionable \<open>Error during translation\<close> whose subtitle starts with the text of
  \<open>e\<close>.
\<close>

theorem C2_errors_become_items:
  assumes run: "KeywordQueryEventListener_on_event api query extension = (r, extension', calls)"
  shows "(\<exists>item. r = RenderResultListAction [item]) \<and>
         (\<forall>kwargs e. Construct kwargs \<in> set calls \<and> OpenAI api kwargs = Inl e \<longrightarrow>
            r = RenderResultListAction
                  [\<lparr>icon = ascii ''images/icon.png'',
                    name = ascii ''Error initializing OpenAI client'',
                    description = str_of e, highlightable = False, on_enter = None\<rparr>]) \<and>
         (\<forall>c ms m e. Create c ms m \<in> set calls \<and> create api c ms m = Inl e \<longrightarrow>
            r = RenderResultListAction
                  [\<lparr>icon = ascii ''images/icon.png'',
                    name = ascii ''Error during translation'',
                    description = str_of e @ [10] @ ascii ''Check logs for details'',
                    highlightable = False, on_enter = None\<rparr>])"
  using assms
  by (auto simp: handler_defs init_error_item_def translation_error_item_def
      split: option.splits sum.splits list.splits prod.splits if_splits)

theorem C2_errors_become_items_witness:
  "fst (KeywordQueryEventListener_on_event timeout_api (Some (ascii ''hello''))
          example_extension) =
     RenderResultListAction
       [\<lparr>icon = ascii ''images/icon.png'', name = ascii ''Error during translation'',
         description = ascii ''Request timed out.'' @ [10] @ ascii ''Check logs for details'',
         highlightable = False, on_enter = None\<rparr>] \<and>
   fst (KeywordQueryEventListener_on_event failing_api (Some (ascii ''hello''))
          example_extension) =
     RenderResultListAction
       [\<lparr>icon = ascii ''images/icon.png'', name = ascii ''Error initializing OpenAI client'',
         description = ascii ''Invalid URL'', highlightable = False, on_enter = None\<rparr>]"
proof -
  let ?q = "Some (ascii ''hello'')"
  let ?c = "[(ascii ''api_key'', ascii ''k'')]"
  let ?ms = "[\<lparr>role = ascii ''system'', content = default_system_prompt\<rparr>,
              \<lparr>role = ascii ''user'', content = ascii ''hello''\<rparr>]"
  obtain r e cs where
    run: "KeywordQueryEventListener_on_event timeout_api ?q example_extension = (r, e, cs)"
    by (rule prod_cases3)
  have "cs = [Construct ?c, Create ?c ?ms (ascii ''gpt-4o-mini''),
              Log_error (ascii ''Error during translation: '' @ ascii ''Request timed out.'')]"
    using run by (simp add: eval_defs)
  then have sent: "Create ?c ?ms (ascii ''gpt-4o-mini'') \<in> set cs"
    by simp
  have raised: "create timeout_api ?c ?ms (ascii ''gpt-4o-mini'') =
                  Inl (Exception (ascii ''Request timed out.''))"
    by (simp add: timeout_api_def)
  obtain r' e' cs' where
    run': "KeywordQueryEventListener_on_event failing_api ?q example_extension = (r', e', cs')"
    by (rule prod_cases3)
  have "cs' = [Construct ?c,
               Log_error (ascii ''Error initializing OpenAI client: '' @ ascii ''Invalid URL'')]"
    using run' by (simp add: eval_defs)
  then have built: "Construct ?c \<in> set cs'"
    by simp
  have raised': "OpenAI failing_api ?c = Inl (Exception (ascii ''Invalid URL''))"
    by (simp add: failing_api_def)
  have "r = RenderResultListAction
       [\<lparr>icon = ascii ''images/icon.png'', name = ascii ''Error during translation'',
         description = str_of (Exception (ascii ''Request timed out.'')) @ [10] @
                       ascii ''Check logs for details'',
         highlightable = False, on_enter = None\<rparr>]"
    using C2_errors_become_items [OF run] sent raised by blast
  moreover have "r' = RenderResultListAction
       [\<lparr>icon = ascii ''images/icon.png'', name = ascii ''Error initializing OpenAI client'',
         description = str_of (Exception (ascii ''Invalid URL'')),
         highlightable = False, on_enter = None\<rparr>]"
    using C2_errors_become_items [OF run'] built raised' by blast
  ultimately show ?thesis
    using run run' by simp
qed

text \<open>
  C3.  The extension holds a client built for the default URL, the base URL preference is
  now \<open>http://x\<close>, and the constructor raises.  The keyword-query handler renders the
  non-actionable item with the error text, and the extension still holds the old client
  afterwards: lines 52 to 58 do not assign \<open>extension.openai_client\<close>.  On the same
  extension the preferences handler (line 134) sets the client to \<open>None\<close>.
\<close>

theorem C3_failed_rebuild_keeps_client:
  "fst (KeywordQueryEventListener_on_event failing_api (Some (ascii ''hello'')) cached_extension) =
     RenderResultListAction
       [\<lparr>icon = ascii ''images/icon.png'', name = ascii ''Error initializing OpenAI client'',
         description = ascii ''Invalid URL'', highlightable = False, on_enter = None\<rparr>] \<and>
   openai_client cached_extension = Some [(ascii ''api_key'', ascii ''k'')] \<and>
   openai_client (fst (snd
     (KeywordQueryEventListener_on_event failing_api (Some (ascii ''hello'')) cached_extension))) =
     Some [(ascii ''api_key'', ascii ''k'')] \<and>
   openai_client (fst (PreferencesEventListener_on_event failing_api cached_extension)) = None"
  by (simp add: eval_defs PreferencesEventListener_on_event_def)




text \<open>
  C5.  For every request the handler sends: when the custom prompt preference is the empty
  string (or absent), the first message is the system message with the default instruction;
  when it is a non-empty string \<open>X\<close> that neither starts nor ends with whitespace, the first
  message is the system message with content \<open>X\<close>.
\<close>

theorem C5_system_message:
  assumes run: "KeywordQueryEventListener_on_event api query extension = (r, extension', calls)"
    and req: "Create c ms m \<in> set calls"
    and X: "X = dict_get (preferences extension) (ascii ''custom_prompt'') []"
  shows "(X = [] \<longrightarrow>
            (\<exists>user. ms = [\<lparr>role = ascii ''system'', content = default_system_prompt\<rparr>, user])) \<and>
         (X \<noteq> [] \<and> \<not> isspace (hd X) \<and> \<not> isspace (last X) \<longrightarrow>
            (\<exists>user. ms = [\<lparr>role = ascii ''system'', content = X\<rparr>, user]))"
proof -
  from on_event_request [OF run req]
  have ms: "\<exists>q. ms = build_messages (strip X) q"
    using X by auto
  have "X = [] \<Longrightarrow> strip X = []"
    by (simp add: strip_Nil)
  moreover have "X \<noteq> [] \<and> \<not> isspace (hd X) \<and> \<not> isspace (last X) \<Longrightarrow> strip X = X"
    by (simp add: strip_unchanged)
  ultimately show ?thesis
    using ms by (auto simp: build_messages_def)
qed

theorem C5_system_message_witness:
  "Create [(ascii ''api_key'', ascii ''k'')]
     [\<lparr>role = ascii ''system'', content = default_system_prompt\<rparr>,
      \<lparr>role = ascii ''user'', content = ascii ''hello''\<rparr>] (ascii ''gpt-4o-mini'')
     \<in> set (snd (snd (KeywordQueryEventListener_on_event example_api
           (Some (ascii '' hello '')) example_extension))) \<and>
   (\<exists>user. [\<lparr>role = ascii ''system'', content = default_system_prompt\<rparr>,
             \<lparr>role = ascii ''user'', content = ascii ''hello''\<rparr>] =
            [\<lparr>role = ascii ''system'', content = default_system_prompt\<rparr>, user]) \<and>
   Create [(ascii ''api_key'', ascii ''k'')]
     [\<lparr>role = ascii ''system'', content = [88]\<rparr>,
      \<lparr>role = ascii ''user'', content = ascii ''hello''\<rparr>] (ascii ''gpt-4o-mini'')
     \<in> set (snd (snd (KeywordQueryEventListener_on_event example_api
           (Some (ascii ''hello'')) (prompt_extension [88])))) \<and>
   (\<exists>user. [\<lparr>role = ascii ''system'', content = [88]\<rparr>,
             \<lparr>role = ascii ''user'', content = ascii ''hello''\<rparr>] =
            [\<lparr>role = ascii ''system'', content = [88]\<rparr>, user])"
proof -
  let ?q = "Some (ascii ''hello'')"
  let ?c = "[(ascii ''api_key'', ascii ''k'')]"
  let ?user = "\<lparr>role = ascii ''user'', content = ascii ''hello''\<rparr>"
  let ?ms0 = "[\<lparr>role = ascii ''system'', content = default_system_prompt\<rparr>, ?user]"
  let ?ms1 = "[\<lparr>role = ascii ''system'', content = [88]\<rparr>, ?user]"
  obtain r e cs where
    run: "KeywordQueryEventListener_on_event example_api (Some (ascii '' hello ''))
            example_extension = (r, e, cs)"
    by (rule prod_cases3)
  then have req: "Create ?c ?ms0 (ascii ''gpt-4o-mini'') \<in> set cs"
    by (auto simp: example_run)
  have X: "[] = dict_get (preferences example_extension) (ascii ''custom_prompt'') []"
    by (simp add: eval_defs)
  obtain r' e' cs' where
    run': "KeywordQueryEventListener_on_event example_api ?q (prompt_extension [88]) =
             (r', e', cs')"
    by (rule prod_cases3)
  then have req': "Create ?c ?ms1 (ascii ''gpt-4o-mini'') \<in> set cs'"
    using plain_prompt_run by simp
  have X': "[88] = dict_get (preferences (prompt_extension [88])) (ascii ''custom_prompt'') []"
    by (simp add: prompt_extension_def dict_get_def)
  have "\<not> isspace (hd [88]) \<and> \<not> isspace (last [88])"
    by (simp add: isspace_def)
  then show ?thesis
    using C5_system_message [OF run req X] C5_system_message [OF run' req' X']
      run req run' req'
    by simp
qed

text \<open>
  C5 for any non-empty custom prompt does not hold: the custom prompt that is one space is
  a non-empty string, and the system message sent is the default instruction, not the space.
\<close>

theorem C5_blank_prompt_counterexample:
  "dict_get (preferences (prompt_extension [32])) (ascii ''custom_prompt'') [] = [32] \<and>
   [32] \<noteq> ([] :: str) \<and>
   snd (snd (KeywordQueryEventListener_on_event example_api (Some (ascii ''hello''))
       (prompt_extension [32]))) =
     [Construct [(ascii ''api_key'', ascii ''k'')],
      Create [(ascii ''api_key'', ascii ''k'')]
        [\<lparr>role = ascii ''system'', content = default_system_prompt\<rparr>,
         \<lparr>role = ascii ''user'', content = ascii ''hello''\<rparr>] (ascii ''gpt-4o-mini'')] \<and>
   default_system_prompt \<noteq> [32]"
  using blank_prompt_run default_system_prompt_not_blank
  by (simp add: prompt_extension_def dict_get_def)

text \<open>
  C6.  When the API key preference is absent or empty, the handler renders exactly the one
  non-actionable item \<open>OpenAI API Key Missing\<close>, leaves the extension as it was, and makes
  no call: neither the constructor nor a request.
\<close>

theorem C6_missing_key:
  assumes "preferences extension (ascii ''openai_api_key'') = None \<or>
           preferences extension (ascii ''openai_api_key'') = Some []"
  shows "KeywordQueryEventListener_on_event api query extension =
           (RenderResultListAction
              [\<lparr>icon = ascii ''images/icon.png'', name = ascii ''OpenAI API Key Missing'',
                description = ascii ''Please set your OpenAI API Key in Ulauncher preferences.'',
                highlightable = False, on_enter = None\<rparr>],
            extension, [])"
  using assms
  by (auto simp: KeywordQueryEventListener_on_event_def truthy_def key_missing_item_def)

theorem C6_missing_key_witness:
  "KeywordQueryEventListener_on_event example_api (Some (ascii ''hello'')) no_key_extension =
     (RenderResultListAction
        [\<lparr>icon = ascii ''images/icon.png'', name = ascii ''OpenAI API Key Missing'',
          description = ascii ''Please set your OpenAI API Key in Ulauncher preferences.'',
          highlightable = False, on_enter = None\<rparr>],
      no_key_extension, [])"
proof -
  have "preferences no_key_extension (ascii ''openai_api_key'') = None \<or>
        preferences no_key_extension (ascii ''openai_api_key'') = Some []"
    by (simp add: no_key_extension_def)
  then show ?thesis
    by (rule C6_missing_key)
qed

text \<open>
  C7.  With a non-empty API key and a client at hand (the cached one, valid for the base
  URL, or one the constructor returns), a query that is missing, empty or made of
  whitespace only gets exactly the one non-actionable item \<open>Type something to translate\<close>,
  and no request is sent.
\<close>

theorem C7_empty_query:
  assumes key: "preferences extension (ascii ''openai_api_key'') = Some key" "key \<noteq> []"
    and base: "base_url = strip (dict_get (preferences extension) (ascii ''base_url'') [])"
    and client: "(openai_client extension \<noteq> None \<and> current_base_url extension = Some base_url) \<or>
                 (\<exists>c. OpenAI api (client_kwargs key base_url) = Inr c)"
    and input: "query = None \<or> (\<exists>q. query = Some q \<and> (\<forall>ch\<in>set q. isspace ch))"
    and run: "KeywordQueryEventListener_on_event api query extension = (r, extension', calls)"
  shows "r = RenderResultListAction
               [\<lparr>icon = ascii ''images/icon.png'', name = ascii ''Type something to translate'',
                 description = ascii ''Enter text to translate using OpenAI'',
                 highlightable = False, on_enter = None\<rparr>] \<and>
         filter is_request calls = []"
proof -
  have "query = None \<or> (\<exists>q. query = Some q \<and> strip q = [])"
    using input by (simp add: strip_eq_Nil_iff)
  then show ?thesis
    using key base client run
    by (auto simp: handler_defs type_something_item_def
        split: option.splits sum.splits list.splits prod.splits if_splits)
qed

theorem C7_empty_query_witness:
  "fst (KeywordQueryEventListener_on_event example_api (Some [32, 9, 12288]) example_extension) =
     RenderResultListAction
       [\<lparr>icon = ascii ''images/icon.png'', name = ascii ''Type something to translate'',
         description = ascii ''Enter text to translate using OpenAI'',
         highlightable = False, on_enter = None\<rparr>] \<and>
   filter is_request (snd (snd (KeywordQueryEventListener_on_event example_api
       (Some [32, 9, 12288]) example_extension))) = []"
proof -
  have key: "preferences example_extension (ascii ''openai_api_key'') = Some (ascii ''k'')"
      "ascii ''k'' \<noteq> []"
    by (simp_all add: eval_defs)
  have base: "[] = strip (dict_get (preferences example_extension) (ascii ''base_url'') [])"
    by (simp add: eval_defs)
  have client: "(openai_client example_extension \<noteq> None \<and>
        current_base_url example_extension = Some []) \<or>
      (\<exists>c. OpenAI example_api (client_kwargs (ascii ''k'') []) = Inr c)"
    by (simp add: eval_defs)
  have input: "Some [32, 9, 12288] = None \<or>
      (\<exists>q. Some [32, 9, 12288] = Some q \<and> (\<forall>ch\<in>set q. isspace ch))"
    by (simp add: isspace_def)
  obtain r e cs where
    run: "KeywordQueryEventListener_on_event example_api (Some [32, 9, 12288])
            example_extension = (r, e, cs)"
    by (rule prod_cases3)
  from C7_empty_query [OF key base client input run] show ?thesis
    using run by simp
qed

text \<open>
  C8.  For every library behaviour, every query and every extension, the list the handler
  renders has exactly one item.
\<close>

theorem C8_exactly_one_item:
  "\<exists>item. fst (KeywordQueryEventListener_on_event api query extension) =
           RenderResultListAction [item]"
  by (auto simp: handler_defs split: option.splits sum.splits list.splits prod.splits)

text \<open>
  C9.  For every request the handler sends: when the custom prompt preference consists of
  whitespace only, the system message carries the default instruction; otherwise it carries
  the preference trimmed, so a prompt \<open>x\<close> surrounded by whitespace is sent as \<open>x\<close>.
\<close>

theorem C9_custom_prompt_trimmed:
  assumes run: "KeywordQueryEventListener_on_event api query extension = (r, extension', calls)"
    and req: "Create c ms m \<in> set calls"
    and P: "P = dict_get (preferences extension) (ascii ''custom_prompt'') []"
  shows "((\<forall>ch\<in>set P. isspace ch) \<longrightarrow>
            (\<exists>user. ms = [\<lparr>role = ascii ''system'', content = default_system_prompt\<rparr>, user])) \<and>
         (\<not> (\<forall>ch\<in>set P. isspace ch) \<longrightarrow>
            (\<exists>user. ms = [\<lparr>role = ascii ''system'', content = strip P\<rparr>, user])) \<and>
         (\<forall>l x t. P = l @ x @ t \<and> (\<forall>ch\<in>set l. isspace ch) \<and> (\<forall>ch\<in>set t. isspace ch) \<and>
                  x \<noteq> [] \<and> \<not> isspace (hd x) \<and> \<not> isspace (last x) \<longrightarrow>
            (\<exists>user. ms = [\<lparr>role = ascii ''system'', content = x\<rparr>, user]))"
proof -
  from on_event_request [OF run req]
  have ms: "\<exists>q. ms = build_messages (strip P) q"
    using P by auto
  have blank: "(\<forall>ch\<in>set P. isspace ch) \<longleftrightarrow> strip P = []"
    by (simp add: strip_eq_Nil_iff)
  have inner: "strip P = x"
    if "P = l @ x @ t" "\<forall>ch\<in>set l. isspace ch" "\<forall>ch\<in>set t. isspace ch"
       "x \<noteq> []" "\<not> isspace (hd x)" "\<not> isspace (last x)" for l x t
    using that by (simp add: strip_surrounded)
  have c1: "(\<forall>ch\<in>set P. isspace ch) \<longrightarrow>
            (\<exists>user. ms = [\<lparr>role = ascii ''system'', content = default_system_prompt\<rparr>, user])"
    using ms blank by (auto simp: build_messages_def)
  have c2: "\<not> (\<forall>ch\<in>set P. isspace ch) \<longrightarrow>
            (\<exists>user. ms = [\<lparr>role = ascii ''system'', content = strip P\<rparr>, user])"
    using ms blank by (auto simp: build_messages_def)
  have c3: "\<forall>l x t. P = l @ x @ t \<and> (\<forall>ch\<in>set l. isspace ch) \<and> (\<forall>ch\<in>set t. isspace ch) \<and>
                  x \<noteq> [] \<and> \<not> isspace (hd x) \<and> \<not> isspace (last x) \<longrightarrow>
            (\<exists>user. ms = [\<lparr>role = ascii ''system'', content = x\<rparr>, user])"
  proof (intro allI impI)
    fix l x t
    assume h: "P = l @ x @ t \<and> (\<forall>ch\<in>set l. isspace ch) \<and> (\<forall>ch\<in>set t. isspace ch) \<and>
                  x \<noteq> [] \<and> \<not> isspace (hd x) \<and> \<not> isspace (last x)"
    then have "strip P = x" "x \<noteq> []"
      using inner by blast+
    then show "\<exists>user. ms = [\<lparr>role = ascii ''system'', content = x\<rparr>, user]"
      using ms by (auto simp: build_messages_def)
  qed
  show ?thesis
    using c1 c2 c3 by blast
qed

theorem C9_custom_prompt_trimmed_witness:
  "Create [(ascii ''api_key'', ascii ''k'')]
     [\<lparr>role = ascii ''system'', content = default_system_prompt\<rparr>,
      \<lparr>role = ascii ''user'', content = ascii ''hello''\<rparr>] (ascii ''gpt-4o-mini'')
     \<in> set (snd (snd (KeywordQueryEventListener_on_event example_api
           (Some (ascii ''hello'')) (prompt_extension [32])))) \<and>
   (\<exists>user. [\<lparr>role = ascii ''system'', content = default_system_prompt\<rparr>,
             \<lparr>role = ascii ''user'', content = ascii ''hello''\<rparr>] =
            [\<lparr>role = ascii ''system'', content = default_system_prompt\<rparr>, user]) \<and>
   Create [(ascii ''api_key'', ascii ''k'')]
     [\<lparr>role = ascii ''system'', content = [88]\<rparr>,
      \<lparr>role = ascii ''user'', content = ascii ''hello''\<rparr>] (ascii ''gpt-4o-mini'')
     \<in> set (snd (snd (KeywordQueryEventListener_on_event example_api
           (Some (ascii ''hello'')) (prompt_extension [32, 88, 32])))) \<and>
   (\<exists>user. [\<lparr>role = ascii ''system'', content = [88]\<rparr>,
             \<lparr>role = ascii ''user'', content = ascii ''hello''\<rparr>] =
            [\<lparr>role = ascii ''system'', content = strip [32, 88, 32]\<rparr>, user])"
proof -
  let ?q = "Some (ascii ''hello'')"
  let ?c = "[(ascii ''api_key'', ascii ''k'')]"
  let ?user = "\<lparr>role = ascii ''user'', content = ascii ''hello''\<rparr>"
  let ?ms0 = "[\<lparr>role = ascii ''system'', content = default_system_prompt\<rparr>, ?user]"
  let ?ms1 = "[\<lparr>role = ascii ''system'', content = [88]\<rparr>, ?user]"
  obtain r e cs where
    run: "KeywordQueryEventListener_on_event example_api ?q (prompt_extension [32]) = (r, e, cs)"
    by (rule prod_cases3)
  then have req: "Create ?c ?ms0 (ascii ''gpt-4o-mini'') \<in> set cs"
    using blank_prompt_run by simp
  have P: "[32] = dict_get (preferences (prompt_extension [32])) (ascii ''custom_prompt'') []"
    by (simp add: prompt_extension_def dict_get_def)
  obtain r' e' cs' where
    run': "KeywordQueryEventListener_on_event example_api ?q (prompt_extension [32, 88, 32]) =
             (r', e', cs')"
    by (rule prod_cases3)
  then have req': "Create ?c ?ms1 (ascii ''gpt-4o-mini'') \<in> set cs'"
    using padded_prompt_run by simp
  have P': "[32, 88, 32] =
      dict_get (preferences (prompt_extension [32, 88, 32])) (ascii ''custom_prompt'') []"
    by (simp add: prompt_extension_def dict_get_def)
  have "\<forall>ch\<in>set [32]. isspace ch" "\<not> (\<forall>ch\<in>set [32, 88, 32]. isspace ch)"
    by (simp_all add: isspace_def)
  then show ?thesis
    using C9_custom_prompt_trimmed [OF run req P] C9_custom_prompt_trimmed [OF run' req' P']
      run req run' req'
    by simp
qed

text \<open>
  C10.  When the API key preference is absent or empty, the keyword-query handler leaves
  the cached client and the recorded base URL as they were, while the preferences handler
  sets the cached client to \<open>None\<close>.
\<close>

theorem C10_missing_key_keeps_client:
  assumes "preferences extension (ascii ''openai_api_key'') = None \<or>
           preferences extension (ascii ''openai_api_key'') = Some []"
  shows "openai_client (fst (snd (KeywordQueryEventListener_on_event api query extension))) =
           openai_client extension \<and>
         current_base_url (fst (snd (KeywordQueryEventListener_on_event api query extension))) =
           current_base_url extension \<and>
         openai_client (fst (PreferencesEventListener_on_event api extension)) = None"
  using assms
  by (auto simp: KeywordQueryEventListener_on_event_def PreferencesEventListener_on_event_def
      truthy_def)

theorem C10_missing_key_keeps_client_witness:
  "openai_client (fst (snd (KeywordQueryEventListener_on_event example_api
       (Some (ascii ''hello'')) no_key_extension))) = Some [(ascii ''api_key'', ascii ''k'')] \<and>
   current_base_url (fst (snd (KeywordQueryEventListener_on_event example_api
       (Some (ascii ''hello'')) no_key_extension))) = Some [] \<and>
   openai_client (fst (PreferencesEventListener_on_event example_api no_key_extension)) = None"
proof -
  have "preferences no_key_extension (ascii ''openai_api_key'') = None \<or>
        preferences no_key_extension (ascii ''openai_api_key'') = Some []"
    by (simp add: no_key_extension_def)
  from C10_missing_key_keeps_client [OF this, of example_api "Some (ascii ''hello'')"]
  show ?thesis
    by (simp add: no_key_extension_def cached_extension_def)
qed

end
